theory Spec2Isabelle
  imports Main "HOL-Library.Word"
begin

section \<open>The conversation router of dataline\<close>

text \<open>
  The development embeds \<^verbatim>\<open>backend/dataline/api/conversation/router.py\<close>: the
  streamed \<^verbatim>\<open>query\<close> endpoint with its deferred \<^verbatim>\<open>commit_and_close_session\<close>, and
  the synchronous \<^verbatim>\<open>execute_sql\<close> endpoint (RunSQL). Services that the router only
  calls (conversation and connection lookup, the SQL toolkit, result serialisation, the
  stream producer) are parameters of the model; exceptions are values of a sum type.
\<close>

subsection \<open>Values, errors and schemas\<close>

type_synonym uuid = "128 word"

text \<open>A cell of a result row (\<^verbatim>\<open>typing.Any\<close> in the schema).\<close>

datatype sql_value = Null | IntV int | StrV string | BoolV bool

text \<open>
  Exceptions that travel through the router, tagged by where they come from.
  \<^verbatim>\<open>ClientDisconnect\<close> is the framework's, \<^verbatim>\<open>CancelledError\<close> is asyncio's.
\<close>

datatype error =
    NotFound string
  | ConnectionFailure string
  | ExecutionError string
  | SessionError string
  | StreamError string
  | ClientDisconnect
  | CancelledError

record ConversationOut =
  conversation_id :: uuid
  connection_id :: uuid
  name :: string

record Connection =
  connection_uuid :: uuid
  dsn :: string

datatype SQLDatabase = SQLDatabase string

record QueryRunData =
  columns :: "string list"
  rows :: "sql_value list list"

record SQLQueryRunResult =
  columns :: "string list"
  rows :: "sql_value list list"
  for_chart :: bool
  linked_id :: uuid

record 'a SuccessResponse =
  data :: 'a

subsection \<open>RunSQL: the \<^verbatim>\<open>execute_sql\<close> endpoint\<close>

text \<open>
  What the endpoint obtains through \<^verbatim>\<open>Depends\<close> and imports. Each lookup may raise;
  \<^verbatim>\<open>execute_sql_query\<close> runs against the external database, whose contents are the
  state \<open>'w\<close> threaded through the call; \<^verbatim>\<open>serialize_result\<close> is the method of the result
  schema producing the transport form \<open>'out\<close>.
\<close>

record ('w, 'out) services =
  get_conversation :: "uuid \<Rightarrow> error + ConversationOut"
  get_connection :: "uuid \<Rightarrow> error + Connection"
  from_uri :: "string \<Rightarrow> error + SQLDatabase"
  execute_sql_query :: "SQLDatabase \<Rightarrow> string \<Rightarrow> 'w \<Rightarrow> (error + QueryRunData) \<times> 'w"
  serialize_result :: "SQLQueryRunResult \<Rightarrow> 'out"

text \<open>
  \<^verbatim>\<open>execute_sql(conversation_id, sql, linked_id, limit=10, execute=True, ...)\<close>.
  The toolkit is called as \<^verbatim>\<open>execute_sql_query(db, sql)\<close>; the result is built with
  \<^verbatim>\<open>for_chart=False\<close> and the caller's \<^verbatim>\<open>linked_id\<close>.
\<close>

definition execute_sql ::
  "('w, 'out) services \<Rightarrow> uuid \<Rightarrow> string \<Rightarrow> uuid \<Rightarrow> int \<Rightarrow> bool \<Rightarrow> 'w
     \<Rightarrow> (error + 'out SuccessResponse) \<times> 'w" where
  "execute_sql svc conv_id sql lnk limit execute w =
     (case get_conversation svc conv_id of
        Inl e \<Rightarrow> (Inl e, w)
      | Inr conversation \<Rightarrow>
          (case get_connection svc (connection_id conversation) of
             Inl e \<Rightarrow> (Inl e, w)
           | Inr connection \<Rightarrow>
               (case from_uri svc (dsn connection) of
                  Inl e \<Rightarrow> (Inl e, w)
                | Inr db \<Rightarrow>
                    (case execute_sql_query svc db sql w of
                       (Inl e, w') \<Rightarrow> (Inl e, w')
                     | (Inr query_run_data, w') \<Rightarrow>
                         (let result =
                            \<lparr> columns = QueryRunData.columns query_run_data,
                              rows = QueryRunData.rows query_run_data,
                              for_chart = False,
                              linked_id = lnk \<rparr>
                          in (Inr \<lparr> data = serialize_result svc result \<rparr>, w'))))))"

subsection \<open>A sample deployment for concrete runs\<close>

text \<open>
  One conversation bound to one connection whose database holds a single table \<open>t\<close>
  of five columns. The external database state is the list of rows of \<open>t\<close>. The sample
  toolkit answers \<^verbatim>\<open>SELECT * FROM t\<close> with every row and applies \<^verbatim>\<open>DELETE FROM t\<close>.
\<close>

definition sample_columns :: "string list" where
  "sample_columns = [''id'', ''name'', ''email'', ''age'', ''city'']"

definition sample_table :: "sql_value list list" where
  "sample_table =
     [[IntV 1, StrV ''ann'', StrV ''ann@x.org'', IntV 31, StrV ''Oslo''],
      [IntV 2, StrV ''bob'', StrV ''bob@x.org'', IntV 42, StrV ''Rome''],
      [IntV 3, StrV ''cy'', StrV ''cy@x.org'', IntV 27, StrV ''Lima''],
      [IntV 4, StrV ''dee'', StrV ''dee@x.org'', IntV 58, StrV ''Kyiv''],
      [IntV 5, StrV ''eve'', StrV ''eve@x.org'', IntV 19, StrV ''Pune'']]"

definition sample_toolkit ::
  "SQLDatabase \<Rightarrow> string \<Rightarrow> sql_value list list \<Rightarrow> (error + QueryRunData) \<times> sql_value list list" where
  "sample_toolkit db sql w =
     (if sql = ''SELECT * FROM t''
      then (Inr \<lparr> QueryRunData.columns = sample_columns, QueryRunData.rows = w \<rparr>, w)
      else if sql = ''DELETE FROM t''
      then (Inr \<lparr> QueryRunData.columns = [], QueryRunData.rows = [] \<rparr>, [])
      else (Inl (ExecutionError ''syntax''), w))"

definition sample_services :: "(sql_value list list, SQLQueryRunResult) services" where
  "sample_services =
     \<lparr> get_conversation = (\<lambda>c. if c = 1
          then Inr \<lparr> conversation_id = 1, connection_id = 7, name = ''demo'' \<rparr>
          else Inl (NotFound ''conversation'')),
       get_connection = (\<lambda>c. if c = 7
          then Inr \<lparr> connection_uuid = 7, dsn = ''sqlite:///demo.db'' \<rparr>
          else Inl (NotFound ''connection'')),
       from_uri = (\<lambda>u. Inr (SQLDatabase u)),
       execute_sql_query = sample_toolkit,
       serialize_result = (\<lambda>r. r) \<rparr>"

subsection \<open>The unit of work behind the streamed query\<close>

text \<open>
  The session handed to \<^verbatim>\<open>query\<close> by \<^verbatim>\<open>get_session_no_commit\<close> buffers writes until
  they are committed. Its state: the rows that subsequent reads see (\<open>storage\<close>), the
  writes buffered so far (\<open>pending\<close>), whether it has been closed, the order in which
  events were sent to the consumer and session methods were called (\<open>trace\<close>), and
  which of its methods raise, and what (\<open>faults\<close>, \<open>None\<close> for a method that
  succeeds).
\<close>

datatype session_op = Commit | Rollback | Close

datatype 'ev action = Sent 'ev | Call session_op

record ('row, 'ev) session =
  storage :: "'row list"
  pending :: "'row list"
  closed :: bool
  trace :: "'ev action list"
  faults :: "session_op \<Rightarrow> error option"

text \<open>
  A commit that succeeds makes the buffered writes visible; a rollback or a close that
  succeeds discards them; a method that raises leaves rows and buffer as they were.
\<close>

definition session_commit ::
  "('row, 'ev) session \<Rightarrow> (error + unit) \<times> ('row, 'ev) session" where
  "session_commit s =
     (case faults s Commit of
        Some e \<Rightarrow> (Inl e, s\<lparr> trace := trace s @ [Call Commit] \<rparr>)
      | None \<Rightarrow> (Inr (), s\<lparr> storage := storage s @ pending s, pending := [],
                              trace := trace s @ [Call Commit] \<rparr>))"

definition session_rollback ::
  "('row, 'ev) session \<Rightarrow> (error + unit) \<times> ('row, 'ev) session" where
  "session_rollback s =
     (case faults s Rollback of
        Some e \<Rightarrow> (Inl e, s\<lparr> trace := trace s @ [Call Rollback] \<rparr>)
      | None \<Rightarrow> (Inr (), s\<lparr> pending := [], trace := trace s @ [Call Rollback] \<rparr>))"

definition session_close ::
  "('row, 'ev) session \<Rightarrow> (error + unit) \<times> ('row, 'ev) session" where
  "session_close s =
     (case faults s Close of
        Some e \<Rightarrow> (Inl e, s\<lparr> trace := trace s @ [Call Close] \<rparr>)
      | None \<Rightarrow> (Inr (), s\<lparr> pending := [], closed := True,
                              trace := trace s @ [Call Close] \<rparr>))"

fun session_call ::
  "session_op \<Rightarrow> ('row, 'ev) session \<Rightarrow> (error + unit) \<times> ('row, 'ev) session" where
  "session_call Commit s = session_commit s"
| "session_call Rollback s = session_rollback s"
| "session_call Close s = session_close s"

text \<open>
  What \<^verbatim>\<open>except Exception\<close> catches: \<^verbatim>\<open>asyncio.CancelledError\<close> derives from
  \<^verbatim>\<open>BaseException\<close> and passes through such a handler; the other errors are
  instances of \<^verbatim>\<open>Exception\<close>.
\<close>

fun is_Exception :: "error \<Rightarrow> bool" where
  "is_Exception CancelledError = False"
| "is_Exception _ = True"

text \<open>
  \<^verbatim>\<open>commit_and_close_session\<close>: \<^verbatim>\<open>try: commit  except Exception: rollback; raise
  finally: close\<close>. The handler runs only for what \<^verbatim>\<open>except Exception\<close> catches;
  an exception of \<^verbatim>\<open>rollback\<close> replaces the one being handled, and an exception of
  \<^verbatim>\<open>close\<close> replaces whatever was propagating, as in Python.
\<close>

definition commit_and_close_session ::
  "('row, 'ev) session \<Rightarrow> (error + unit) \<times> ('row, 'ev) session" where
  "commit_and_close_session s =
     (case session_commit s of
        (Inr u, s1) \<Rightarrow>
          (case session_close s1 of
             (Inl e3, s3) \<Rightarrow> (Inl e3, s3)
           | (Inr u3, s3) \<Rightarrow> (Inr (), s3))
      | (Inl e, s1) \<Rightarrow>
          (if is_Exception e
           then (case session_rollback s1 of
                   (r2, s2) \<Rightarrow>
                     (case session_close s2 of
                        (Inl e3, s3) \<Rightarrow> (Inl e3, s3)
                      | (Inr u3, s3) \<Rightarrow>
                          (case r2 of Inl e2 \<Rightarrow> (Inl e2, s3) | Inr u2 \<Rightarrow> (Inl e, s3))))
           else (case session_close s1 of
                   (Inl e3, s3) \<Rightarrow> (Inl e3, s3)
                 | (Inr u3, s3) \<Rightarrow> (Inl e, s3))))"

subsection \<open>The streamed \<^verbatim>\<open>query\<close> endpoint\<close>

text \<open>
  The body of the response is the generator \<^verbatim>\<open>conversation_service.query(session, ...)\<close>.
  The router only hands it to the response, so the service is a parameter: given the
  session and the arguments of the call, the script of what the generator does when it
  is driven, step by step: yield a chunk, buffer a write in the session, call a method
  of the session (whatever the method raises is the generator's to handle, and the
  script goes on with what it does next), or raise out of the generator. A script that
  runs out has returned normally.
\<close>

datatype ('row, 'ev) gen_step = Yield 'ev | Add 'row | Invoke session_op | Raise error

record MessageOptions =
  secure_data :: bool

record ('row, 'ev) StreamingResponse =
  content :: "('row, 'ev) gen_step list"
  media_type :: string
  background :: "('row, 'ev) session \<Rightarrow> (error + unit) \<times> ('row, 'ev) session"

text \<open>
  \<^verbatim>\<open>query(conversation_id, query, message_options, session, conversation_service)\<close>
  returns the response without driving the generator; the background task closes over
  the same session.
\<close>

definition query ::
  "uuid \<Rightarrow> string \<Rightarrow> MessageOptions \<Rightarrow> ('row, 'ev) session
     \<Rightarrow> (('row, 'ev) session \<Rightarrow> uuid \<Rightarrow> string \<Rightarrow> bool \<Rightarrow> ('row, 'ev) gen_step list)
     \<Rightarrow> ('row, 'ev) StreamingResponse" where
  "query conv_id q message_options session conversation_service_query =
     \<lparr> content = conversation_service_query session conv_id q (secure_data message_options),
       media_type = ''text/event-stream'',
       background = commit_and_close_session \<rparr>"

text \<open>
  Driving the body (\<^verbatim>\<open>stream_response\<close> of the framework): each chunk goes to the
  consumer as it is yielded, the other steps act on the session.
\<close>

fun stream_response ::
  "('row, 'ev) gen_step list \<Rightarrow> ('row, 'ev) session \<Rightarrow> error option \<times> ('row, 'ev) session" where
  "stream_response [] s = (None, s)"
| "stream_response (Yield ev # g) s = stream_response g (s\<lparr> trace := trace s @ [Sent ev] \<rparr>)"
| "stream_response (Add r # g) s = stream_response g (s\<lparr> pending := pending s @ [r] \<rparr>)"
| "stream_response (Invoke m # g) s = stream_response g (snd (session_call m s))"
| "stream_response (Raise e # g) s = (Some e, s)"




fun raised :: "('row, 'ev) gen_step list \<Rightarrow> error option" where
  "raised [] = None"
| "raised (Yield ev # g) = raised g"
| "raised (Add r # g) = raised g"
| "raised (Invoke m # g) = raised g"
| "raised (Raise e # g) = Some e"


text \<open>
  Sending the response (\<^verbatim>\<open>StreamingResponse.__call__\<close> of the framework). The
  consumer either stays to the end or leaves when the body has done a number of its
  steps; a generator that has returned or raised by then is not affected. How the send
  ends depends on the ASGI version the server announces:
  \<^item> below 2.4, the body runs in a task group beside a listener for the disconnect;
    when the consumer leaves, the body is cancelled where it stands, the group ends
    normally, and the background task is awaited;
  \<^item> from 2.4 on, the send to a consumer that has left raises, the response raises
    \<^verbatim>\<open>ClientDisconnect\<close>, and the background task is not reached.

  In both, an exception of the body propagates out of the call, past the background
  task, and a body that returns is followed by the background task (the source: "this
  only runs after the query is finished").
\<close>

datatype asgi = Below_2_4 | From_2_4

datatype consumer = Stays | Leaves nat

datatype body_end = Returned | Raised error | Abandoned

definition drive_body ::
  "consumer \<Rightarrow> ('row, 'ev) gen_step list \<Rightarrow> ('row, 'ev) session
     \<Rightarrow> body_end \<times> ('row, 'ev) session" where
  "drive_body c g s =
     (let whole = (case stream_response g s of
                     (None, s') \<Rightarrow> (Returned, s')
                   | (Some e, s') \<Rightarrow> (Raised e, s'))
      in case c of
           Stays \<Rightarrow> whole
         | Leaves n \<Rightarrow>
             (if n < length g \<and> raised (take n g) = None
              then (Abandoned, snd (stream_response (take n g) s))
              else whole))"

definition send_response ::
  "asgi \<Rightarrow> consumer \<Rightarrow> ('row, 'ev) StreamingResponse \<Rightarrow> ('row, 'ev) session
     \<Rightarrow> (error + unit) \<times> ('row, 'ev) session" where
  "send_response spec c resp s =
     (case drive_body c (content resp) s of
        (Raised e, s') \<Rightarrow> (Inl e, s')
      | (Returned, s') \<Rightarrow> background resp s'
      | (Abandoned, s') \<Rightarrow>
          (case spec of
             Below_2_4 \<Rightarrow> background resp s'
           | From_2_4 \<Rightarrow> (Inl ClientDisconnect, s')))"

subsection \<open>Sample sessions and generators for concrete runs\<close>

definition fresh_session ::
  "'row list \<Rightarrow> (session_op \<Rightarrow> error option) \<Rightarrow> ('row, 'ev) session" where
  "fresh_session rows0 F =
     \<lparr> storage = rows0, pending = [], closed = False, trace = [], faults = F \<rparr>"

definition no_faults :: "session_op \<Rightarrow> error option" where
  "no_faults m = None"



text \<open>One generator returns normally, one raises after buffering a write.\<close>

definition sample_script_ok :: "(string, string) gen_step list" where
  "sample_script_ok = [Yield ''sql'', Add ''message'', Yield ''answer'']"


definition service_ok ::
  "(string, string) session \<Rightarrow> uuid \<Rightarrow> string \<Rightarrow> bool \<Rightarrow> (string, string) gen_step list" where
  "service_ok session conv_id q secure = sample_script_ok"


definition sample_options :: MessageOptions where
  "sample_options = \<lparr> secure_data = True \<rparr>"

definition old_session :: "(string, string) session" where
  "old_session = fresh_session [''old''] no_faults"

subsection \<open>The Flow Step Engine\<close>

text \<open>
  Modelled from the spec: the Flow Step Engine (the generate, execute, observe loop
  behind \<^verbatim>\<open>conversation_service.query\<close>) is not in the router file. The actions of the
  language model, the error kinds and the stream events are those the spec lists.
\<close>

datatype llm_action = ProposeSQL string | AskClarification string | FinalAnswer string

datatype flow_error = StepLimitExceeded | ModelUnavailable

datatype stream_event =
    ReasoningStep string
  | SQLProposed string
  | SQLResult QueryRunData
  | FinalAnswerEvent string
  | ErrorEvent string string

text \<open>
  Modelled from the spec: the states of the engine, \<open>Init\<close>, \<open>Proposing\<close>,
  \<open>Executing\<close>, \<open>Observing\<close>, \<open>Finalizing\<close>, \<open>Done\<close>, and \<open>Failed\<close> reachable
  from any state. \<open>Done\<close> and \<open>Failed\<close> are the only terminal states.
\<close>

datatype phase =
    Init
  | Proposing
  | Executing string
  | Observing "error + QueryRunData"
  | Finalizing string
  | Done
  | Failed flow_error

fun terminal :: "phase \<Rightarrow> bool" where
  "terminal Done = True"
| "terminal (Failed _) = True"
| "terminal _ = False"

text \<open>
  Modelled from the spec: what an engine is configured with (the step ceiling, the
  language model as a black box that may be unavailable, the query executor) and what
  it carries (its state, the observations folded in so far, the number of proposing cycles
  begun, the events emitted so far).
\<close>

record engine_config =
  max_steps :: nat
  llm :: "(error + QueryRunData) list \<Rightarrow> llm_action option"
  executor :: "string \<Rightarrow> error + QueryRunData"

record engine =
  phase :: phase
  ctxt :: "(error + QueryRunData) list"
  cycles :: nat
  emitted :: "stream_event list"

text \<open>
  Modelled from the spec: one transition of the Flow Step Engine, emitting exactly one
  event. \<open>Proposing\<close> asks the model unless the ceiling of proposing cycles is
  reached, in which case the engine fails with \<open>StepLimitExceeded\<close>; \<open>ProposeSQL\<close>
  leads to \<open>Executing\<close>, which calls the executor; \<open>Observing\<close> folds the result or
  the error into the context and returns to \<open>Proposing\<close>; an answer or a request
  for clarification leads to \<open>Finalizing\<close> and then \<open>Done\<close>.
\<close>

definition emit :: "stream_event \<Rightarrow> engine \<Rightarrow> engine" where
  "emit ev e = e\<lparr> emitted := emitted e @ [ev] \<rparr>"

fun step :: "engine_config \<Rightarrow> engine \<Rightarrow> engine" where
  "step cfg e =
     (case phase e of
        Init \<Rightarrow> emit (ReasoningStep ''context loaded'') (e\<lparr> phase := Proposing \<rparr>)
      | Proposing \<Rightarrow>
          (if max_steps cfg \<le> cycles e
           then emit (ErrorEvent ''FlowError'' ''StepLimitExceeded'')
                  (e\<lparr> phase := Failed StepLimitExceeded \<rparr>)
           else (case llm cfg (ctxt e) of
                   None \<Rightarrow> emit (ErrorEvent ''FlowError'' ''ModelUnavailable'')
                             (e\<lparr> phase := Failed ModelUnavailable \<rparr>)
                 | Some (ProposeSQL stmt) \<Rightarrow>
                     emit (SQLProposed stmt)
                       (e\<lparr> phase := Executing stmt, cycles := Suc (cycles e) \<rparr>)
                 | Some (AskClarification txt) \<Rightarrow>
                     emit (ReasoningStep txt) (e\<lparr> phase := Finalizing txt \<rparr>)
                 | Some (FinalAnswer txt) \<Rightarrow>
                     emit (ReasoningStep txt) (e\<lparr> phase := Finalizing txt \<rparr>)))
      | Executing stmt \<Rightarrow>
          (case executor cfg stmt of
             Inl err \<Rightarrow> emit (ErrorEvent ''ExecutionError'' stmt)
                          (e\<lparr> phase := Observing (Inl err) \<rparr>)
           | Inr res \<Rightarrow> emit (SQLResult res) (e\<lparr> phase := Observing (Inr res) \<rparr>))
      | Observing ob \<Rightarrow>
          emit (ReasoningStep ''observed'')
            (e\<lparr> phase := Proposing, ctxt := ctxt e @ [ob] \<rparr>)
      | Finalizing txt \<Rightarrow> emit (FinalAnswerEvent txt) (e\<lparr> phase := Done \<rparr>)
      | Done \<Rightarrow> e
      | Failed err \<Rightarrow> e)"

text \<open>
  Modelled from the spec: the engine runs its transitions until it reaches a terminal
  state. The measure is the number of proposing cycles left under the ceiling, then the
  distance of the state from the next \<open>Proposing\<close>.
\<close>

fun rank :: "phase \<Rightarrow> nat" where
  "rank Init = 5"
| "rank Proposing = 2"
| "rank (Executing _) = 4"
| "rank (Observing _) = 3"
| "rank (Finalizing _) = 1"
| "rank Done = 0"
| "rank (Failed _) = 0"

definition fuel :: "engine_config \<Rightarrow> engine \<Rightarrow> nat" where
  "fuel cfg e = 4 * (max_steps cfg - cycles e) + rank (phase e)"

function run :: "engine_config \<Rightarrow> engine \<Rightarrow> engine" where
  "run cfg e = (if terminal (phase e) then e else run cfg (step cfg e))"
  by pat_completeness auto
termination
proof (relation "measure (\<lambda>(cfg, e). fuel cfg e)")
  show "wf (measure (\<lambda>(cfg, e). fuel cfg e))" by simp
next
  fix cfg :: engine_config and e :: engine
  assume nt: "\<not> terminal (phase e)"
  have "fuel cfg (step cfg e) < fuel cfg e"
    using nt
    by (cases "phase e")
       (auto simp: fuel_def emit_def split: option.splits llm_action.splits sum.splits)
  then show "((cfg, step cfg e), (cfg, e)) \<in> measure (\<lambda>(cfg, e). fuel cfg e)"
    by simp
qed

definition start :: "(error + QueryRunData) list \<Rightarrow> engine" where
  "start history = \<lparr> phase = Init, ctxt = history, cycles = 0, emitted = [] \<rparr>"

fun is_proposal :: "stream_event \<Rightarrow> bool" where
  "is_proposal (SQLProposed _) = True"
| "is_proposal _ = False"

definition eager_config :: "nat \<Rightarrow> engine_config" where
  "eager_config n =
     \<lparr> max_steps = n,
       llm = (\<lambda>ctx. Some (ProposeSQL ''SELECT 1'')),
       executor = (\<lambda>stmt. Inr \<lparr> QueryRunData.columns = [''1''],
                                  QueryRunData.rows = [[IntV 1]] \<rparr>) \<rparr>"

definition proposals :: "engine \<Rightarrow> nat" where
  "proposals e = length (filter is_proposal (emitted e))"






section \<open>Properties of RunSQL\<close>

text \<open>Neither \<^verbatim>\<open>limit\<close> nor \<^verbatim>\<open>execute\<close> reaches the toolkit call.\<close>

lemma execute_sql_limit_irrelevant:
  "execute_sql svc c sql l limit e w = execute_sql svc c sql l limit' e w"
  by (simp add: execute_sql_def)

lemma execute_sql_execute_irrelevant:
  "execute_sql svc c sql l limit e w = execute_sql svc c sql l limit e' w"
  by (simp add: execute_sql_def)

lemma execute_sql_success:
  assumes "execute_sql svc c sql l limit e w = (Inr resp, w')"
  shows "\<exists>d :: QueryRunData. data resp =
           serialize_result svc
             \<lparr> columns = QueryRunData.columns d, rows = QueryRunData.rows d,
               for_chart = False, linked_id = l \<rparr>"
  using assms
  by (auto simp: execute_sql_def Let_def split: sum.splits prod.splits)

lemma sample_select:
  "execute_sql sample_services 1 ''SELECT * FROM t'' l limit e sample_table =
     (Inr \<lparr> data = \<lparr> columns = sample_columns, rows = sample_table,
                       for_chart = False, linked_id = l \<rparr> \<rparr>, sample_table)"
  by (simp add: execute_sql_def sample_services_def sample_toolkit_def)

lemma sample_delete:
  "execute_sql sample_services 1 ''DELETE FROM t'' l limit e sample_table =
     (Inr \<lparr> data = \<lparr> columns = [], rows = [],
                       for_chart = False, linked_id = l \<rparr> \<rparr>, [])"
  by (simp add: execute_sql_def sample_services_def sample_toolkit_def)

text \<open>
  C2: RunSQL with a row limit \<open>L\<close> returns at most \<open>L\<close> rows and the full column list;
  with \<open>limit = 2\<close> against a table of five rows it returns two rows. The endpoint does
  not pass \<open>limit\<close> on: on the sample deployment the call with \<open>limit = 2\<close> returns the
  five rows of the table, beside the five column names.
\<close>

theorem run_sql_limit_2_returns_5_rows:
  "(case fst (execute_sql sample_services 1 ''SELECT * FROM t'' 9 2 True sample_table) of
      Inl e \<Rightarrow> False
    | Inr resp \<Rightarrow> length (rows (data resp)) = 5 \<and> length (columns (data resp)) = 5)"
  by (simp add: sample_select, simp add: sample_table_def sample_columns_def)

text \<open>
  C3: RunSQL with \<open>execute = False\<close> leaves the external database as it was. The
  endpoint does not pass \<open>execute\<close> on: on the sample deployment the call with
  \<open>execute = False\<close> and a \<^verbatim>\<open>DELETE\<close> statement empties the table of five rows, as
  the call with \<open>execute = True\<close> does.
\<close>

theorem run_sql_dry_run_deletes:
  "snd (execute_sql sample_services 1 ''DELETE FROM t'' 9 10 False sample_table) = []
   \<and> length sample_table = 5
   \<and> execute_sql sample_services 1 ''DELETE FROM t'' 9 10 False sample_table =
       execute_sql sample_services 1 ''DELETE FROM t'' 9 10 True sample_table"
  by (simp add: sample_delete, simp add: sample_table_def)

text \<open>
  C9: whenever RunSQL returns successfully, whatever the statement, the result it
  serialises into the response has \<open>for_chart = False\<close>.
\<close>

theorem run_sql_for_chart_false:
  assumes "execute_sql svc c sql l limit e w = (Inr resp, w')"
  shows "\<exists>r. data resp = serialize_result svc r \<and> for_chart r = False"
proof -
  from execute_sql_success [OF assms] obtain d :: QueryRunData where
    "data resp = serialize_result svc
       \<lparr> columns = QueryRunData.columns d, rows = QueryRunData.rows d,
         for_chart = False, linked_id = l \<rparr>" ..
  then show ?thesis
    by (intro exI [of _ "\<lparr> columns = QueryRunData.columns d, rows = QueryRunData.rows d,
         for_chart = False, linked_id = l \<rparr>"]) simp
qed

theorem run_sql_for_chart_false_witness:
  "\<exists>r. \<lparr> columns = sample_columns, rows = sample_table,
          for_chart = False, linked_id = 9 \<rparr> = r \<and> for_chart r = False"
  using run_sql_for_chart_false [OF sample_select [of 9 10 True]]
  by (simp add: sample_services_def)

text \<open>
  C10: whenever RunSQL returns successfully, the result it serialises into the
  response carries the \<open>linked_id\<close> the caller supplied.
\<close>

theorem run_sql_linked_id_unchanged:
  assumes "execute_sql svc c sql l limit e w = (Inr resp, w')"
  shows "\<exists>r. data resp = serialize_result svc r \<and> linked_id r = l"
proof -
  from execute_sql_success [OF assms] obtain d :: QueryRunData where
    "data resp = serialize_result svc
       \<lparr> columns = QueryRunData.columns d, rows = QueryRunData.rows d,
         for_chart = False, linked_id = l \<rparr>" ..
  then show ?thesis
    by (intro exI [of _ "\<lparr> columns = QueryRunData.columns d, rows = QueryRunData.rows d,
         for_chart = False, linked_id = l \<rparr>"]) simp
qed

theorem run_sql_linked_id_unchanged_witness:
  "\<exists>r. \<lparr> columns = [], rows = [], for_chart = False, linked_id = 42 \<rparr> = r
       \<and> linked_id r = (42 :: uuid)"
  using run_sql_linked_id_unchanged [OF sample_delete [of 42 10 True]]
  by (simp add: sample_services_def)

section \<open>Properties of the Flow Step Engine\<close>

declare run.simps [simp del]

lemma run_terminal: "terminal (phase e) \<Longrightarrow> run cfg e = e"
  by (subst run.simps) simp

lemma run_step: "\<not> terminal (phase e) \<Longrightarrow> run cfg e = run cfg (step cfg e)"
  by (subst run.simps) simp

lemma run_reaches_terminal: "terminal (phase (run cfg e))"
proof (induction cfg e rule: run.induct)
  case (1 cfg e)
  show ?case
  proof (cases "terminal (phase e)")
    case True
    then show ?thesis by (simp add: run_terminal)
  next
    case False
    with 1 show ?thesis by (simp add: run_step)
  qed
qed

text \<open>One proposing cycle: propose, execute, observe, and the engine proposes again.\<close>

lemma proposing_cycle:
  assumes always: "\<forall>c. \<exists>stmt. llm cfg c = Some (ProposeSQL stmt)"
    and p: "phase e = Proposing"
    and below: "cycles e < max_steps cfg"
  shows "\<exists>e'. run cfg e = run cfg e' \<and> phase e' = Proposing
            \<and> cycles e' = Suc (cycles e) \<and> proposals e' = Suc (proposals e)"
proof -
  from always obtain stmt where l: "llm cfg (ctxt e) = Some (ProposeSQL stmt)" by blast
  define e1 where "e1 = step cfg e"
  define e2 where "e2 = step cfg e1"
  define e3 where "e3 = step cfg e2"
  have p1: "phase e1 = Executing stmt" "cycles e1 = Suc (cycles e)"
    "proposals e1 = Suc (proposals e)"
    using p below l by (simp_all add: e1_def emit_def proposals_def)
  have p2: "\<exists>ob. phase e2 = Observing ob" "cycles e2 = cycles e1" "proposals e2 = proposals e1"
    using p1 by (auto simp: e2_def emit_def proposals_def split: sum.splits)
  have p3: "phase e3 = Proposing" "cycles e3 = cycles e2" "proposals e3 = proposals e2"
    using p2 by (auto simp: e3_def emit_def proposals_def)
  have "run cfg e = run cfg e1" using p by (simp add: run_step e1_def)
  also have "\<dots> = run cfg e2" using p1 by (simp add: run_step e2_def)
  also have "\<dots> = run cfg e3" using p2 by (auto simp: run_step e3_def)
  finally have "run cfg e = run cfg e3" .
  with p1 p2 p3 show ?thesis by auto
qed

lemma proposing_hits_ceiling:
  assumes always: "\<forall>c. \<exists>stmt. llm cfg c = Some (ProposeSQL stmt)"
  shows "phase e = Proposing \<Longrightarrow> cycles e \<le> max_steps cfg \<Longrightarrow> k = max_steps cfg - cycles e \<Longrightarrow>
     phase (run cfg e) = Failed StepLimitExceeded
     \<and> cycles (run cfg e) = max_steps cfg
     \<and> proposals (run cfg e) = proposals e + k"
proof (induction k arbitrary: e)
  case 0
  then have full: "max_steps cfg \<le> cycles e" by simp
  have "run cfg e = run cfg (step cfg e)" using 0 by (simp add: run_step)
  also have "\<dots> = step cfg e" using 0 full by (simp add: run_terminal emit_def)
  finally show ?case using 0 full by (simp add: emit_def proposals_def)
next
  case (Suc k)
  then have below: "cycles e < max_steps cfg" by simp
  from proposing_cycle [OF always Suc.prems(1) below]
  obtain e' where e': "run cfg e = run cfg e'" "phase e' = Proposing"
    "cycles e' = Suc (cycles e)" "proposals e' = Suc (proposals e)" by blast
  have "phase (run cfg e') = Failed StepLimitExceeded
     \<and> cycles (run cfg e') = max_steps cfg
     \<and> proposals (run cfg e') = proposals e' + k"
    using Suc.prems e' below by (intro Suc.IH) simp_all
  with e' show ?case by simp
qed

text \<open>
  C8: the engine always reaches a terminal state; with a step ceiling \<open>N\<close> and a model
  that proposes SQL whatever it is told, it ends in \<open>Failed StepLimitExceeded\<close>
  having begun exactly \<open>N\<close> proposing cycles and emitted exactly \<open>N\<close> proposals.
\<close>

theorem step_ceiling:
  "terminal (phase (run cfg (start history)))
   \<and> ((\<forall>c. \<exists>stmt. llm cfg c = Some (ProposeSQL stmt)) \<longrightarrow>
        phase (run cfg (start history)) = Failed StepLimitExceeded
        \<and> cycles (run cfg (start history)) = max_steps cfg
        \<and> length (filter is_proposal (emitted (run cfg (start history)))) = max_steps cfg)"
proof (intro conjI impI)
  show "terminal (phase (run cfg (start history)))" by (rule run_reaches_terminal)
next
  assume always: "\<forall>c. \<exists>stmt. llm cfg c = Some (ProposeSQL stmt)"
  define e0 where "e0 = step cfg (start history)"
  have e0: "phase e0 = Proposing" "cycles e0 = 0" "proposals e0 = 0"
    by (simp_all add: e0_def start_def emit_def proposals_def)
  have r: "run cfg (start history) = run cfg e0"
    by (simp add: run_step e0_def start_def)
  have "phase (run cfg e0) = Failed StepLimitExceeded
     \<and> cycles (run cfg e0) = max_steps cfg
     \<and> proposals (run cfg e0) = proposals e0 + (max_steps cfg - cycles e0)"
    using e0 by (intro proposing_hits_ceiling [OF always]) simp_all
  with e0 r show "phase (run cfg (start history)) = Failed StepLimitExceeded"
    and "cycles (run cfg (start history)) = max_steps cfg"
    and "length (filter is_proposal (emitted (run cfg (start history)))) = max_steps cfg"
    by (simp_all add: proposals_def)
qed

theorem step_ceiling_witness:
  "phase (run (eager_config 3) (start [])) = Failed StepLimitExceeded
   \<and> cycles (run (eager_config 3) (start [])) = 3
   \<and> length (filter is_proposal (emitted (run (eager_config 3) (start [])))) = 3"
  using step_ceiling [of "eager_config 3" "[]"] by (simp add: eager_config_def)

section \<open>Properties of the streamed query\<close>

subsection \<open>What the session calls and the stream do to the state\<close>














lemma sample_complete_run:
  "send_response spec Stays (query 1 ''how many?'' sample_options old_session service_ok)
     old_session =
   (Inr (),
    \<lparr> storage = [''old'', ''message''], pending = [], closed = True,
      trace = [Sent ''sql'', Sent ''answer'', Call Commit, Call Close],
      faults = no_faults \<rparr>)"
  by (simp add: send_response_def drive_body_def query_def service_ok_def
        sample_script_ok_def old_session_def fresh_session_def no_faults_def
        commit_and_close_session_def session_commit_def session_close_def)

lemma sample_abandoned_run_below_2_4:
  "send_response Below_2_4 (Leaves 2)
     (query 1 ''how many?'' sample_options old_session service_ok) old_session =
   (Inr (),
    \<lparr> storage = [''old'', ''message''], pending = [], closed = True,
      trace = [Sent ''sql'', Call Commit, Call Close], faults = no_faults \<rparr>)"
  by (simp add: send_response_def drive_body_def query_def service_ok_def
        sample_script_ok_def old_session_def fresh_session_def no_faults_def
        commit_and_close_session_def session_commit_def session_close_def)

lemma sample_abandoned_run_from_2_4:
  "send_response From_2_4 (Leaves 2)
     (query 1 ''how many?'' sample_options old_session service_ok) old_session =
   (Inl ClientDisconnect,
    \<lparr> storage = [''old''], pending = [''message''], closed = False,
      trace = [Sent ''sql''], faults = no_faults \<rparr>)"
  by (simp add: send_response_def drive_body_def query_def service_ok_def
        sample_script_ok_def old_session_def fresh_session_def)


lemma send_response_abandoned:
  assumes "n < length (content resp)" and "raised (take n (content resp)) = None"
  shows "send_response spec (Leaves n) resp s =
           (case spec of
              Below_2_4 \<Rightarrow> background resp (snd (stream_response (take n (content resp)) s))
            | From_2_4 \<Rightarrow>
                (Inl ClientDisconnect, snd (stream_response (take n (content resp)) s)))"
  using assms by (simp add: send_response_def drive_body_def Let_def split: prod.splits option.splits)


subsection \<open>The claims on the unit of work\<close>










text \<open>
  C6: when the consumer disconnects mid-stream, no commit of the invocation's buffered
  writes occurs. On a server that announces an ASGI version below 2.4, the consumer of
  the sample query leaves after the first chunk, when one write is buffered: the
  background task runs all the same, commits that write and closes the session.
\<close>

theorem abandoned_stream_is_committed:
  "storage (snd (send_response Below_2_4 (Leaves 2)
       (query 1 ''how many?'' sample_options old_session service_ok) old_session))
     = [''old'', ''message'']
   \<and> trace (snd (send_response Below_2_4 (Leaves 2)
       (query 1 ''how many?'' sample_options old_session service_ok) old_session))
     = [Sent ''sql'', Call Commit, Call Close]
   \<and> fst (send_response Below_2_4 (Leaves 2)
       (query 1 ''how many?'' sample_options old_session service_ok) old_session)
     = Inr ()"
  by (simp add: sample_abandoned_run_below_2_4)

end
